theory Spec2Isabelle
  imports Main "HOL-Library.AList"
begin

section \<open>Values, errors and the process\<close>

text \<open>
  The items that flow through a pipeline, the parsed invocations and the envelopes the
  command line prints are JavaScript values that \<open>JSON.stringify\<close> can print. An
  object is the list of its properties in insertion order. A number is kept as an
  integer: the command line never computes with an item, and the indices it does
  compute with are integers.
\<close>

datatype json =
    JNull
  | JBool bool
  | JNum int
  | JStr string
  | JArr "json list"
  | JObj "(string \<times> json) list"

text \<open>
  \<open>v.k\<close> and \<open>v?.k\<close>, for the properties the handlers read (\<open>type\<close>, \<open>items\<close>,
  \<open>prompt\<close>): \<open>None\<close> is JavaScript's \<open>undefined\<close>. Of the values of this model only an
  object can have one of them.
\<close>

fun get_prop :: "json \<Rightarrow> string \<Rightarrow> json option" where
  "get_prop (JObj kvs) k = map_of kvs k"
| "get_prop _ k = None"

text \<open>
  \<open>{ ...v, k: x }\<close>: the properties of \<open>v\<close>, then \<open>k\<close> set to \<open>x\<close>. The handlers spread
  the approval item only, which is an object.
\<close>

fun spread_with :: "json \<Rightarrow> string \<Rightarrow> json \<Rightarrow> json" where
  "spread_with (JObj kvs) k x = JObj (AList.update k x kvs)"
| "spread_with _ k x = JObj [(k, x)]"

text \<open>
  A thrown value, as the two things the handlers read from it: its \<open>message\<close>
  property, when it has one, and what \<open>String(err)\<close> gives.
\<close>

datatype js_error = JsError (message_of: "string option") (string_of: string)

definition Error :: "string \<Rightarrow> js_error" where
  "Error m = JsError (Some m) (''Error: '' @ m)"

text \<open>\<open>err?.message ?? String(err)\<close>\<close>

definition err_text :: "js_error \<Rightarrow> string" where
  "err_text err = (case message_of err of Some m \<Rightarrow> m | None \<Rightarrow> string_of err)"

definition newline :: string where
  "newline = [CHR 0x0A]"

text \<open>
  One call of \<open>process.stdout.write\<close>. The text \<open>JSON.stringify(v, null, 2)\<close> is kept
  as the value it prints.
\<close>

datatype chunk = Stringified json | Text string

text \<open>
  A pipeline is the array of invocations the parser returns; the command line hands
  them on and never looks inside.
\<close>

type_synonym pipeline = "json list"

text \<open>
  What \<open>runPipeline\<close> is called with. \<open>input\<close> is \<open>None\<close> when the caller passes none;
  otherwise it is the stream the caller built: the items it yields, or the error its
  first pull throws. The handles \<open>stdin\<close>, \<open>stdout\<close>, \<open>stderr\<close>, \<open>env\<close> and the registry
  are the same in every call.
\<close>

record run_request =
  pipeline :: pipeline
  mode :: string
  input :: "(js_error + json list) option"

text \<open>The RunResult; \<open>haltedAt\<close> is \<open>output.haltedAt?.index\<close>.\<close>

record run_result =
  items :: "json list"
  rendered :: bool
  halted :: bool
  haltedAt :: "int option"

text \<open>
  What a call of \<open>runPipeline\<close> does: the stages write to the \<open>stdout\<close> and \<open>stderr\<close> they
  are given, and the call returns a RunResult or throws.
\<close>

record engine_reply =
  out_writes :: "string list"
  err_writes :: "string list"
  reply :: "js_error + run_result"

text \<open>
  The object \<open>encodeToken\<close> is given, and the payload \<open>decodeResumeToken\<close> returns: the
  properties \<open>v\<close>, \<open>pipeline\<close>, \<open>resumeAtIndex\<close>, \<open>items\<close> and \<open>prompt\<close> (prefixed
  where another record has the name). \<open>items\<close> and \<open>prompt\<close> are read from the approval
  item and may be \<open>undefined\<close>.
\<close>

record continuation =
  c_v :: int
  c_pipeline :: pipeline
  resumeAtIndex :: int
  c_items :: "json option"
  c_prompt :: "json option"

record resume_args =
  token :: "string option"
  approved :: bool

text \<open>
  The functions \<open>handleRun\<close> and \<open>handleResume\<close> import from \<open>parser.js\<close>, \<open>runtime.js\<close>,
  \<open>token.js\<close> and \<open>resume.js\<close>. A function that can throw returns a sum.
\<close>

record env =
  parsePipeline :: "string \<Rightarrow> js_error + pipeline"
  runPipeline :: "run_request \<Rightarrow> engine_reply"
  encodeToken :: "continuation \<Rightarrow> string"
  parseResumeArgs :: "string list \<Rightarrow> js_error + resume_args"
  decodeResumeToken :: "string option \<Rightarrow> js_error + continuation"

text \<open>
  The process as the handlers change it: the writes to the two streams in order,
  \<open>process.exitCode\<close>, and a log of the calls of \<open>runPipeline\<close>.
\<close>

record process =
  stdout :: "chunk list"
  stderr :: "string list"
  exitCode :: "int option"
  engine_calls :: "run_request list"

datatype completion = Returned | Uncaught js_error

section \<open>The command line\<close>

text \<open>
  \<open>parseModeAndStrip\<close>: the loop over \<open>argv\<close>, with the mode and the rest so far.
  \<open>argv[i + 1]\<close> is \<open>undefined\<close> past the end, and the empty string is falsy.
\<close>

fun parseModeAndStrip_loop :: "string list \<Rightarrow> string \<Rightarrow> string list \<Rightarrow> string \<times> string list" where
  "parseModeAndStrip_loop [] m rest = (m, rest)"
| "parseModeAndStrip_loop [tok] m rest =
     (if tok = ''--mode'' then (m, rest)
      else if take 7 tok = ''--mode='' then
        ((if drop 7 tok = [] then ''human'' else drop 7 tok), rest)
      else (m, rest @ [tok]))"
| "parseModeAndStrip_loop (tok # val # others) m rest =
     (if tok = ''--mode'' then
        (if val \<noteq> [] then parseModeAndStrip_loop others val rest
         else parseModeAndStrip_loop (val # others) m rest)
      else if take 7 tok = ''--mode='' then
        parseModeAndStrip_loop (val # others)
          (if drop 7 tok = [] then ''human'' else drop 7 tok) rest
      else parseModeAndStrip_loop (val # others) m (rest @ [tok]))"

definition parseModeAndStrip :: "string list \<Rightarrow> string \<times> string list" where
  "parseModeAndStrip argv = parseModeAndStrip_loop argv ''human'' []"

text \<open>\<open>rest.join(' ')\<close>\<close>

fun join_space :: "string list \<Rightarrow> string" where
  "join_space [] = []"
| "join_space [x] = x"
| "join_space (x # y # ys) = x @ '' '' @ join_space (y # ys)"

definition writeToolEnvelope :: "json \<Rightarrow> process \<Rightarrow> process" where
  "writeToolEnvelope payload s =
     s\<lparr>stdout := stdout s @ [Stringified payload, Text newline]\<rparr>"

definition error_envelope :: "string \<Rightarrow> js_error \<Rightarrow> json" where
  "error_envelope ty err =
     JObj [(''ok'', JBool False),
           (''error'', JObj [(''type'', JStr ty), (''message'', JStr (err_text err))])]"

text \<open>
  \<open>output.halted && output.items.length === 1 &&
   output.items[0]?.type === 'approval_request' ? output.items[0] : null\<close>
\<close>

definition approval_of :: "run_result \<Rightarrow> json option" where
  "approval_of output =
     (if halted output \<and> length (items output) = 1
         \<and> get_prop (items output ! 0) ''type'' = Some (JStr ''approval_request'')
      then Some (items output ! 0) else None)"

text \<open>\<open>(output.haltedAt?.index ?? -1) + 1\<close>\<close>

definition resume_index :: "run_result \<Rightarrow> int" where
  "resume_index output = (case haltedAt output of Some i \<Rightarrow> i | None \<Rightarrow> - 1) + 1"

definition approval_envelope :: "json \<Rightarrow> string \<Rightarrow> json" where
  "approval_envelope approval resumeToken =
     JObj [(''ok'', JBool True),
           (''status'', JStr ''needs_approval''),
           (''output'', JArr []),
           (''requiresApproval'', spread_with approval ''resumeToken'' (JStr resumeToken))]"

definition ok_envelope :: "json list \<Rightarrow> json" where
  "ok_envelope its =
     JObj [(''ok'', JBool True),
           (''status'', JStr ''ok''),
           (''output'', JArr its),
           (''requiresApproval'', JNull)]"

definition cancelled_envelope :: json where
  "cancelled_envelope =
     JObj [(''ok'', JBool True),
           (''status'', JStr ''cancelled''),
           (''output'', JArr []),
           (''requiresApproval'', JNull)]"

text \<open>
  The call \<open>await runPipeline({...})\<close>: the call is logged, and what the stages wrote
  is on the streams when it returns or throws.
\<close>

definition call_engine :: "env \<Rightarrow> run_request \<Rightarrow> process \<Rightarrow> (js_error + run_result) \<times> process" where
  "call_engine e rq s =
     (let r = runPipeline e rq
      in (reply r,
          s\<lparr>stdout := stdout s @ map Text (out_writes r),
            stderr := stderr s @ err_writes r,
            engine_calls := engine_calls s @ [rq]\<rparr>))"

text \<open>
  The tool-mode tail that \<open>handleRun\<close> and \<open>handleResume\<close> both have: the approval
  envelope with a fresh token, or the \<open>ok\<close> envelope.
\<close>

definition tool_result :: "env \<Rightarrow> pipeline \<Rightarrow> run_result \<Rightarrow> process \<Rightarrow> process" where
  "tool_result e pl output s =
     (case approval_of output of
        Some approval \<Rightarrow>
          (let resumeToken = encodeToken e
                 \<lparr>c_v = 1, c_pipeline = pl, resumeAtIndex = resume_index output,
                  c_items = get_prop approval ''items'', c_prompt = get_prop approval ''prompt''\<rparr>
           in writeToolEnvelope (approval_envelope approval resumeToken) s)
      | None \<Rightarrow> writeToolEnvelope (ok_envelope (items output)) s)"

definition handleRun :: "env \<Rightarrow> string list \<Rightarrow> process \<Rightarrow> completion \<times> process" where
  "handleRun e argv s =
     (let (md, rest) = parseModeAndStrip argv;
          pipelineString = join_space rest
      in case parsePipeline e pipelineString of
           Inl err \<Rightarrow>
             if md = ''tool'' then
               (Returned, (writeToolEnvelope (error_envelope ''parse_error'' err) s)\<lparr>exitCode := Some 2\<rparr>)
             else
               (Returned, s\<lparr>stderr := stderr s @ [''Parse error: '' @ err_text err @ newline],
                            exitCode := Some 2\<rparr>)
         | Inr pl \<Rightarrow>
             (case call_engine e \<lparr>pipeline = pl, mode = md, input = None\<rparr> s of
                (Inr output, s1) \<Rightarrow>
                  if md = ''tool'' then (Returned, tool_result e pl output s1)
                  else if \<not> rendered output then
                    (Returned, s1\<lparr>stdout := stdout s1 @ [Stringified (JArr (items output)), Text newline]\<rparr>)
                  else (Returned, s1)
              | (Inl err, s1) \<Rightarrow>
                  if md = ''tool'' then
                    (Returned, (writeToolEnvelope (error_envelope ''runtime_error'' err) s1)\<lparr>exitCode := Some 1\<rparr>)
                  else
                    (Returned, s1\<lparr>stderr := stderr s1 @ [''Error: '' @ err_text err @ newline],
                                  exitCode := Some 1\<rparr>)))"

text \<open>
  \<open>xs.slice(k)\<close>: a negative \<open>k\<close> counts from the end, and a start outside the array is
  clamped.
\<close>

definition js_slice :: "'a list \<Rightarrow> int \<Rightarrow> 'a list" where
  "js_slice xs k =
     (if k < 0 then drop (nat (max (int (length xs) + k) 0)) xs else drop (nat k) xs)"

text \<open>
  The generator \<open>for (const item of payload.items) yield item\<close>. An array yields its
  elements and a string its characters; anything else throws at the first pull.
\<close>

definition not_iterable :: js_error where
  "not_iterable = JsError (Some ''payload.items is not iterable'')
                          ''TypeError: payload.items is not iterable''"

fun items_stream :: "json option \<Rightarrow> js_error + json list" where
  "items_stream (Some (JArr xs)) = Inr xs"
| "items_stream (Some (JStr cs)) = Inr (map (\<lambda>c. JStr [c]) cs)"
| "items_stream _ = Inl not_iterable"

definition handleResume :: "env \<Rightarrow> string list \<Rightarrow> process \<Rightarrow> completion \<times> process" where
  "handleResume e argv s =
     (case parseResumeArgs e argv of
        Inl err \<Rightarrow> (Uncaught err, s)
      | Inr ra \<Rightarrow>
          (case decodeResumeToken e (token ra) of
             Inl err \<Rightarrow> (Uncaught err, s)
           | Inr payload \<Rightarrow>
               if \<not> approved ra then (Returned, writeToolEnvelope cancelled_envelope s)
               else
                 (let remaining = js_slice (c_pipeline payload) (resumeAtIndex payload);
                      inp = items_stream (c_items payload)
                  in case call_engine e \<lparr>pipeline = remaining, mode = ''tool'', input = Some inp\<rparr> s of
                       (Inr output, s1) \<Rightarrow> (Returned, tool_result e remaining output s1)
                     | (Inl err, s1) \<Rightarrow>
                         (Returned,
                          (writeToolEnvelope (error_envelope ''runtime_error'' err) s1)\<lparr>exitCode := Some 1\<rparr>))))"

text \<open>The JSON objects among the writes to \<open>stdout\<close>, in order.\<close>

fun json_objects :: "chunk list \<Rightarrow> json list" where
  "json_objects [] = []"
| "json_objects (Stringified (JObj kvs) # cs) = JObj kvs # json_objects cs"
| "json_objects (c # cs) = json_objects cs"

section \<open>The command \<open>workflows.run\<close>\<close>

text \<open>
  The arguments of a stage as the parser leaves them: a flag is a raw string, and
  \<open>args._\<close> is the list of the bare tokens.
\<close>

record cmd_args =
  flag :: "string \<Rightarrow> string option"
  positional :: "string list"

text \<open>
  The input of a stage, pull by pull: the stream ends, or the pull throws (an upstream
  stage failed), or it yields an item and the rest. A stream of the data model is
  finite.
\<close>

datatype item_stream = End | Throws js_error | Yields json item_stream

fun stream_items :: "item_stream \<Rightarrow> json list" where
  "stream_items End = []"
| "stream_items (Throws err) = []"
| "stream_items (Yields x rest) = x # stream_items rest"

fun stream_error :: "item_stream \<Rightarrow> js_error option" where
  "stream_error End = None"
| "stream_error (Throws err) = Some err"
| "stream_error (Yields x rest) = stream_error rest"

text \<open>
  The names every ordinary object inherits from \<open>Object.prototype\<close>: a property lookup
  \<open>table[name]\<close> finds them in any object literal.
\<close>

definition object_prototype_names :: "string list" where
  "object_prototype_names =
     [''constructor'', ''hasOwnProperty'', ''isPrototypeOf'', ''propertyIsEnumerable'',
      ''toLocaleString'', ''toString'', ''valueOf'', ''__proto__'',
      ''__defineGetter__'', ''__defineSetter__'', ''__lookupGetter__'', ''__lookupSetter__'']"

text \<open>
  The table \<open>runners\<close> has three entries: the workflows a runner is implemented for.
\<close>

definition implemented :: "string \<Rightarrow> bool" where
  "implemented name =
     (name = ''email.triage'' \<or> name = ''github.pr.monitor'' \<or> name = ''github.pr.monitor.notify'')"

text \<open>
  \<open>runners[name]\<close> is a property lookup on that object literal, so it finds the three
  own properties and also what every object inherits from \<open>Object.prototype\<close>.
\<close>

datatype runner =
    RunEmailTriageWorkflow
  | RunGithubPrMonitorWorkflow
  | RunGithubPrMonitorNotifyWorkflow
  | ObjectPrototype string

definition runners :: "string \<Rightarrow> runner option" where
  "runners name =
     (if name = ''email.triage'' then Some RunEmailTriageWorkflow
      else if name = ''github.pr.monitor'' then Some RunGithubPrMonitorWorkflow
      else if name = ''github.pr.monitor.notify'' then Some RunGithubPrMonitorNotifyWorkflow
      else if name \<in> set object_prototype_names then Some (ObjectPrototype name)
      else None)"

text \<open>
  What \<open>workflows_run.js\<close> imports and the built-ins it calls. \<open>workflowRegistry\<close> is the
  imported table, as the names it lists: the registered workflows. The three workflow
  functions are called with the workflow's arguments and \<open>ctx\<close>. \<open>JSON.parse\<close> is \<open>None\<close>
  when it throws. \<open>call_inherited\<close> is what calling a member of \<open>Object.prototype\<close> as a
  runner does.
\<close>

record 'c wf_env =
  workflowRegistry :: "string \<Rightarrow> bool"
  runEmailTriageWorkflow :: "json \<Rightarrow> 'c \<Rightarrow> js_error + json"
  runGithubPrMonitorWorkflow :: "json \<Rightarrow> 'c \<Rightarrow> js_error + json"
  runGithubPrMonitorNotifyWorkflow :: "json \<Rightarrow> 'c \<Rightarrow> js_error + json"
  JSON_parse :: "string \<Rightarrow> json option"
  call_inherited :: "string \<Rightarrow> json \<Rightarrow> 'c \<Rightarrow> js_error + json"

text \<open>
  Whether \<open>workflowRegistry[name]\<close> is truthy. The table is indexed as an object, like
  the literal of the recipe registry in \<open>src/recipes/registry.js\<close>, so the lookup finds
  the names it lists and the inherited ones.
\<close>

definition registry_lookup :: "'c wf_env \<Rightarrow> string \<Rightarrow> bool" where
  "registry_lookup w name = (workflowRegistry w name \<or> name \<in> set object_prototype_names)"

fun call_runner :: "'c wf_env \<Rightarrow> runner \<Rightarrow> json \<Rightarrow> 'c \<Rightarrow> js_error + json" where
  "call_runner w RunEmailTriageWorkflow a ctx = runEmailTriageWorkflow w a ctx"
| "call_runner w RunGithubPrMonitorWorkflow a ctx = runGithubPrMonitorWorkflow w a ctx"
| "call_runner w RunGithubPrMonitorNotifyWorkflow a ctx = runGithubPrMonitorNotifyWorkflow w a ctx"
| "call_runner w (ObjectPrototype n) a ctx = call_inherited w n a ctx"

text \<open>What a run of the command does, in order: an item pulled from the input, a runner called.\<close>

datatype wf_event = Pulled json | Invoked runner json

text \<open>\<open>args.name ?? args._[0]\<close>\<close>

definition resolved_name :: "cmd_args \<Rightarrow> string option" where
  "resolved_name args =
     (case flag args ''name'' of
        Some n \<Rightarrow> Some n
      | None \<Rightarrow> (case positional args of [] \<Rightarrow> None | x # _ \<Rightarrow> Some x))"

text \<open>
  \<open>workflowArgs\<close>: \<open>{}\<close> unless \<open>args['args-json']\<close> is truthy, and then what
  \<open>JSON.parse\<close> returns.
\<close>

definition workflow_args :: "'c wf_env \<Rightarrow> cmd_args \<Rightarrow> js_error + json" where
  "workflow_args w args =
     (case flag args ''args-json'' of
        None \<Rightarrow> Inr (JObj [])
      | Some j \<Rightarrow>
          if j = [] then Inr (JObj [])
          else (case JSON_parse w j of
                  None \<Rightarrow> Inl (Error ''workflows.run --args-json must be valid JSON'')
                | Some a \<Rightarrow> Inr a))"

text \<open>
  \<open>for await (const _ of input) { }\<close>: every item is pulled and dropped, until the stream
  ends; a pull that throws ends the loop with its error, which nothing catches.
\<close>

fun drain :: "item_stream \<Rightarrow> wf_event list \<Rightarrow> js_error option \<times> wf_event list" where
  "drain End events = (None, events)"
| "drain (Throws err) events = (Some err, events)"
| "drain (Yields x rest) events = drain rest (events @ [Pulled x])"

text \<open>
  \<open>workflowsRunCommand.run\<close>: the output stream \<open>asStream([result])\<close> as the list of its
  items, or the error thrown, with the events.
\<close>

definition workflows_run ::
  "'c wf_env \<Rightarrow> item_stream \<Rightarrow> cmd_args \<Rightarrow> 'c \<Rightarrow> (js_error + json list) \<times> wf_event list" where
  "workflows_run w inp args ctx =
     (case drain inp [] of
        (Some err, pulled) \<Rightarrow> (Inl err, pulled)
      | (None, drained) \<Rightarrow>
          (case resolved_name args of
             None \<Rightarrow> (Inl (Error ''workflows.run requires --name''), drained)
           | Some name \<Rightarrow>
               if name = [] then (Inl (Error ''workflows.run requires --name''), drained)
               else if \<not> registry_lookup w name then
                 (Inl (Error (''Unknown workflow: '' @ name)), drained)
               else
                 (case runners name of
                    None \<Rightarrow> (Inl (Error (''Workflow runner not implemented: '' @ name)), drained)
                  | Some runner \<Rightarrow>
                      (case workflow_args w args of
                         Inl err \<Rightarrow> (Inl err, drained)
                       | Inr workflowArgs \<Rightarrow>
                           (case call_runner w runner workflowArgs ctx of
                              Inl err \<Rightarrow> (Inl err, drained @ [Invoked runner workflowArgs])
                            | Inr result \<Rightarrow> (Inr [result], drained @ [Invoked runner workflowArgs]))))))"

text \<open>
  When the specification has the command throw before any runner is called: both
  \<open>args.name\<close> and the first positional argument absent, a name that is not a registered
  workflow, a name no runner is implemented for, or an \<open>--args-json\<close> that is present
  and not valid JSON.
\<close>

definition claimed_refuses :: "'c wf_env \<Rightarrow> cmd_args \<Rightarrow> bool" where
  "claimed_refuses w args =
     ((flag args ''name'' = None \<and> positional args = [])
      \<or> (\<exists>n. resolved_name args = Some n \<and> (\<not> workflowRegistry w n \<or> \<not> implemented n))
      \<or> (\<exists>j. flag args ''args-json'' = Some j \<and> JSON_parse w j = None))"

text \<open>
  The same with the one clause the guard \<open>if (args['args-json'])\<close> changes: an
  \<open>--args-json\<close> that is present and empty is taken as absent.
\<close>

definition refuses :: "'c wf_env \<Rightarrow> cmd_args \<Rightarrow> bool" where
  "refuses w args =
     ((flag args ''name'' = None \<and> positional args = [])
      \<or> (\<exists>n. resolved_name args = Some n \<and> (\<not> workflowRegistry w n \<or> \<not> implemented n))
      \<or> (\<exists>j. flag args ''args-json'' = Some j \<and> j \<noteq> [] \<and> JSON_parse w j = None))"

text \<open>
  A name that \<open>Object.prototype\<close> has is found by both lookups although no workflow of
  that name is registered or implemented; the names that are not affected:
\<close>

definition plain_name :: "cmd_args \<Rightarrow> bool" where
  "plain_name args =
     (case resolved_name args of
        None \<Rightarrow> True
      | Some n \<Rightarrow> n \<notin> set object_prototype_names)"

section \<open>The resume token codec\<close>

text \<open>
  Modelled from the spec: \<open>encodeToken\<close> (\<open>token.js\<close>) and \<open>decodeResumeToken\<close>
  (\<open>resume.js\<close>) are not among the sources. The spec gives the codec as \<open>encode\<close> and
  \<open>decode\<close>: a versioned record, serialized to a string in a self-describing,
  self-delimiting JSON format; \<open>decode\<close> fails with a TokenError when the token is
  missing, is not such a text, or carries another version. The text below is compact
  JSON: the only escapes in a string are those of the quote and the backslash, and a
  number is an integer. There is no checksum: the spec's design notes say the source has
  none.
\<close>

definition digit_char :: "nat \<Rightarrow> char" where
  "digit_char d = char_of (48 + d)"

definition is_digit :: "char \<Rightarrow> bool" where
  "is_digit c = (48 \<le> (of_char c :: nat) \<and> (of_char c :: nat) \<le> 57)"

definition digit_val :: "char \<Rightarrow> nat" where
  "digit_val c = of_char c - 48"

fun digits_of :: "nat \<Rightarrow> string" where
  "digits_of n = (if n < 10 then [digit_char n] else digits_of (n div 10) @ [digit_char (n mod 10)])"

definition number_text :: "int \<Rightarrow> string" where
  "number_text i = (if i < 0 then CHR ''-'' # digits_of (nat (- i)) else digits_of (nat i))"

fun escape :: "string \<Rightarrow> string" where
  "escape [] = []"
| "escape (c # cs) =
     (if c = CHR 0x22 \<or> c = CHR 0x5C then CHR 0x5C # c # escape cs else c # escape cs)"

definition quote :: "string \<Rightarrow> string" where
  "quote s = CHR 0x22 # escape s @ [CHR 0x22]"

text \<open>
  Modelled from the spec: the self-delimiting JSON text of a value, as \<open>token.js\<close>
  (not among the sources) would write it. An array and an object close themselves.
\<close>

fun json_text :: "json \<Rightarrow> string"
  and elements_text :: "json list \<Rightarrow> string"
  and members_text :: "(string \<times> json) list \<Rightarrow> string" where
  "json_text JNull = ''null''"
| "json_text (JBool b) = (if b then ''true'' else ''false'')"
| "json_text (JNum i) = number_text i"
| "json_text (JStr s) = quote s"
| "json_text (JArr xs) = CHR ''['' # elements_text xs"
| "json_text (JObj kvs) = CHR ''{'' # members_text kvs"
| "elements_text [] = '']''"
| "elements_text [x] = json_text x @ '']''"
| "elements_text (x # y # ys) = json_text x @ CHR '','' # elements_text (y # ys)"
| "members_text [] = ''}''"
| "members_text [(k, x)] = quote k @ CHR '':'' # json_text x @ ''}''"
| "members_text ((k, x) # m # ms) = quote k @ CHR '':'' # json_text x @ CHR '','' # members_text (m # ms)"

text \<open>
  Modelled from the spec: reading that text back, for \<open>decode\<close>. The parser runs on
  fuel; \<open>json_parse\<close> gives it twice the length of the text and accepts a value only
  when nothing follows it.
\<close>

fun parse_string :: "string \<Rightarrow> (string \<times> string) option" where
  "parse_string [] = None"
| "parse_string (c # cs) =
     (if c = CHR 0x22 then Some ([], cs)
      else if c = CHR 0x5C then
        (case cs of
           [] \<Rightarrow> None
         | d # cs' \<Rightarrow> map_option (apfst ((#) d)) (parse_string cs'))
      else map_option (apfst ((#) c)) (parse_string cs))"

definition digits_value :: "string \<Rightarrow> nat" where
  "digits_value ds = foldl (\<lambda>a c. 10 * a + digit_val c) 0 ds"

definition parse_nat :: "string \<Rightarrow> (nat \<times> string) option" where
  "parse_nat s =
     (let ds = takeWhile is_digit s
      in if ds = [] then None else Some (digits_value ds, dropWhile is_digit s))"

fun parse_value :: "nat \<Rightarrow> string \<Rightarrow> (json \<times> string) option"
  and parse_elements :: "nat \<Rightarrow> string \<Rightarrow> (json list \<times> string) option"
  and parse_members :: "nat \<Rightarrow> string \<Rightarrow> ((string \<times> json) list \<times> string) option" where
  "parse_value 0 s = None"
| "parse_value (Suc n) [] = None"
| "parse_value (Suc n) (c # r) =
     (if c = CHR 0x22 then map_option (apfst JStr) (parse_string r)
      else if c = CHR ''['' then
        (case r of
           [] \<Rightarrow> None
         | d # r' \<Rightarrow> if d = CHR '']'' then Some (JArr [], r')
                     else map_option (apfst JArr) (parse_elements n r))
      else if c = CHR ''{'' then
        (case r of
           [] \<Rightarrow> None
         | d # r' \<Rightarrow> if d = CHR ''}'' then Some (JObj [], r')
                     else map_option (apfst JObj) (parse_members n r))
      else if c = CHR ''-'' then map_option (apfst (\<lambda>k. JNum (- int k))) (parse_nat r)
      else if is_digit c then map_option (apfst (\<lambda>k. JNum (int k))) (parse_nat (c # r))
      else if take 4 (c # r) = ''null'' then Some (JNull, drop 4 (c # r))
      else if take 4 (c # r) = ''true'' then Some (JBool True, drop 4 (c # r))
      else if take 5 (c # r) = ''false'' then Some (JBool False, drop 5 (c # r))
      else None)"
| "parse_elements 0 s = None"
| "parse_elements (Suc n) s =
     (case parse_value n s of
        None \<Rightarrow> None
      | Some (x, r) \<Rightarrow>
          (case r of
             [] \<Rightarrow> None
           | d # r' \<Rightarrow>
               if d = CHR '','' then map_option (apfst ((#) x)) (parse_elements n r')
               else if d = CHR '']'' then Some ([x], r')
               else None))"
| "parse_members 0 s = None"
| "parse_members (Suc n) s =
     (case s of
        [] \<Rightarrow> None
      | q # s' \<Rightarrow>
          if q \<noteq> CHR 0x22 then None
          else (case parse_string s' of
                  None \<Rightarrow> None
                | Some (k, r0) \<Rightarrow>
                    (case r0 of
                       [] \<Rightarrow> None
                     | col # r1 \<Rightarrow>
                         if col \<noteq> CHR '':'' then None
                         else (case parse_value n r1 of
                                 None \<Rightarrow> None
                               | Some (x, r) \<Rightarrow>
                                   (case r of
                                      [] \<Rightarrow> None
                                    | d # r' \<Rightarrow>
                                        if d = CHR '','' then map_option (apfst ((#) (k, x))) (parse_members n r')
                                        else if d = CHR ''}'' then Some ([(k, x)], r')
                                        else None)))))"

definition json_parse :: "string \<Rightarrow> json option" where
  "json_parse s =
     (case parse_value (2 * length s) s of
        Some (x, []) \<Rightarrow> Some x
      | _ \<Rightarrow> None)"

definition TokenError :: "string \<Rightarrow> js_error" where
  "TokenError m = JsError (Some m) (''TokenError: '' @ m)"

definition optional :: "string \<Rightarrow> json option \<Rightarrow> (string \<times> json) list" where
  "optional k x = (case x of None \<Rightarrow> [] | Some y \<Rightarrow> [(k, y)])"

text \<open>
  Modelled from the spec: \<open>encode\<close>, the absent \<open>encodeToken\<close>. The token is the JSON
  text of the versioned record; as \<open>JSON.stringify\<close> does, a property that is
  \<open>undefined\<close> is left out.
\<close>

definition encode :: "continuation \<Rightarrow> string" where
  "encode c =
     json_text (JObj ([(''v'', JNum (c_v c)),
                       (''pipeline'', JArr (c_pipeline c)),
                       (''resumeAtIndex'', JNum (resumeAtIndex c))]
                      @ optional ''items'' (c_items c)
                      @ optional ''prompt'' (c_prompt c)))"

text \<open>
  Modelled from the spec: \<open>decode\<close>, the absent \<open>decodeResumeToken\<close>. It fails with a
  TokenError when the token is missing, when it is not the text of a value, when the
  version is not 1, and when a field does not have the type the data model gives it.
\<close>

definition decode :: "string option \<Rightarrow> js_error + continuation" where
  "decode tok =
     (case tok of
        None \<Rightarrow> Inl (TokenError ''missing token'')
      | Some t \<Rightarrow>
          (case json_parse t of
             None \<Rightarrow> Inl (TokenError ''undecodable token'')
           | Some payload \<Rightarrow>
               if get_prop payload ''v'' \<noteq> Some (JNum 1) then
                 Inl (TokenError ''unrecognized version'')
               else
                 (case (get_prop payload ''pipeline'', get_prop payload ''resumeAtIndex'',
                        get_prop payload ''items'', get_prop payload ''prompt'') of
                    (Some (JArr pl), Some (JNum r), Some (JArr its), Some (JStr p)) \<Rightarrow>
                      Inr \<lparr>c_v = 1, c_pipeline = pl, resumeAtIndex = r,
                           c_items = Some (JArr its), c_prompt = Some (JStr p)\<rparr>
                  | _ \<Rightarrow> Inl (TokenError ''undecodable token''))))"

text \<open>
  A valid ResumeContinuation of the data model: version 1, the items an array and the
  prompt a string.
\<close>

definition valid_continuation :: "continuation \<Rightarrow> bool" where
  "valid_continuation c =
     (c_v c = 1
      \<and> (case c_items c of Some (JArr its) \<Rightarrow> True | _ \<Rightarrow> False)
      \<and> (case c_prompt c of Some (JStr p) \<Rightarrow> True | _ \<Rightarrow> False))"

text \<open>Fuel that is enough to parse the text of a value, and where a number may end.\<close>

fun fuel :: "json \<Rightarrow> nat"
  and fuel_elements :: "json list \<Rightarrow> nat"
  and fuel_members :: "(string \<times> json) list \<Rightarrow> nat" where
  "fuel JNull = 1"
| "fuel (JBool b) = 1"
| "fuel (JNum i) = 1"
| "fuel (JStr s) = 1"
| "fuel (JArr xs) = Suc (fuel_elements xs)"
| "fuel (JObj kvs) = Suc (fuel_members kvs)"
| "fuel_elements [] = 0"
| "fuel_elements [x] = Suc (fuel x)"
| "fuel_elements (x # y # ys) = Suc (max (fuel x) (fuel_elements (y # ys)))"
| "fuel_members [] = 0"
| "fuel_members [(k, x)] = Suc (fuel x)"
| "fuel_members ((k, x) # m # ms) = Suc (max (fuel x) (fuel_members (m # ms)))"

definition number_end :: "string \<Rightarrow> bool" where
  "number_end rest = (case rest of [] \<Rightarrow> True | c # _ \<Rightarrow> \<not> is_digit c)"

section \<open>A sample environment\<close>

text \<open>
  Concrete stand-ins for the imported functions, for the examples below: a parser that
  knows four pipelines, an engine whose \<open>approve\<close> stage halts and whose \<open>table\<close>
  stage renders, and the codec above.
\<close>

definition exec_stage :: json where
  "exec_stage = JObj [(''name'', JStr ''exec'')]"

definition approve_stage :: json where
  "approve_stage = JObj [(''name'', JStr ''approve'')]"

definition table_stage :: json where
  "table_stage = JObj [(''name'', JStr ''table'')]"

definition sample_approval :: json where
  "sample_approval =
     JObj [(''type'', JStr ''approval_request''),
           (''items'', JArr [JNum 1]),
           (''prompt'', JStr ''ok?'')]"

definition sample_parsePipeline :: "string \<Rightarrow> js_error + pipeline" where
  "sample_parsePipeline s =
     (if s = ''exec'' then Inr [exec_stage]
      else if s = ''exec | approve'' then Inr [exec_stage, approve_stage]
      else if s = ''exec | table'' then Inr [exec_stage, table_stage]
      else if s = ''exec | fail'' then Inr [exec_stage, JObj [(''name'', JStr ''fail'')]]
      else Inl (Error ''Unexpected token''))"

definition sample_runPipeline :: "run_request \<Rightarrow> engine_reply" where
  "sample_runPipeline rq =
     (if pipeline rq = [exec_stage, approve_stage] then
        \<lparr>out_writes = [], err_writes = [],
         reply = Inr \<lparr>items = [sample_approval], rendered = False, halted = True, haltedAt = Some 1\<rparr>\<rparr>
      else if pipeline rq = [exec_stage, table_stage] then
        \<lparr>out_writes = [''1'' @ newline], err_writes = [],
         reply = Inr \<lparr>items = [], rendered = True, halted = False, haltedAt = None\<rparr>\<rparr>
      else if pipeline rq = [exec_stage] then
        \<lparr>out_writes = [], err_writes = [],
         reply = Inr \<lparr>items = [JNum 1], rendered = False, halted = False, haltedAt = None\<rparr>\<rparr>
      else if pipeline rq = [] then
        \<lparr>out_writes = [], err_writes = [],
         reply = Inr \<lparr>items = (case input rq of Some (Inr xs) \<Rightarrow> xs | _ \<Rightarrow> []),
                      rendered = False, halted = False, haltedAt = None\<rparr>\<rparr>
      else \<lparr>out_writes = [], err_writes = [], reply = Inl (Error ''Unknown command: fail'')\<rparr>)"

fun sample_parseResumeArgs :: "string list \<Rightarrow> js_error + resume_args" where
  "sample_parseResumeArgs [flag_t, t, flag_a, a] =
     (if flag_t = ''--token'' \<and> flag_a = ''--approve''
      then Inr \<lparr>token = Some t, approved = (a = ''yes'')\<rparr>
      else Inr \<lparr>token = None, approved = False\<rparr>)"
| "sample_parseResumeArgs _ = Inr \<lparr>token = None, approved = False\<rparr>"

definition sample_env :: env where
  "sample_env =
     \<lparr>parsePipeline = sample_parsePipeline,
      runPipeline = sample_runPipeline,
      encodeToken = encode,
      parseResumeArgs = sample_parseResumeArgs,
      decodeResumeToken = decode\<rparr>"

definition sample_continuation :: continuation where
  "sample_continuation =
     \<lparr>c_v = 1, c_pipeline = [exec_stage, approve_stage], resumeAtIndex = 2,
      c_items = Some (JArr [JNum 1]), c_prompt = Some (JStr ''ok?'')\<rparr>"

definition start :: process where
  "start = \<lparr>stdout = [], stderr = [], exitCode = None, engine_calls = []\<rparr>"

text \<open>
  For \<open>workflows.run\<close>: a registry with the three workflows, runners that return a
  string, a \<open>JSON.parse\<close> that knows the empty object only, and the inherited
  \<open>toString\<close>, which called with no receiver returns \<open>[object Undefined]\<close>.
\<close>

definition sample_wf :: "unit wf_env" where
  "sample_wf =
     \<lparr>workflowRegistry = (\<lambda>n. n \<in> {''email.triage'', ''github.pr.monitor'', ''github.pr.monitor.notify''}),
      runEmailTriageWorkflow = (\<lambda>a ctx. Inr (JStr ''triaged'')),
      runGithubPrMonitorWorkflow = (\<lambda>a ctx. Inr (JStr ''monitored'')),
      runGithubPrMonitorNotifyWorkflow = (\<lambda>a ctx. Inr (JStr ''notified'')),
      JSON_parse = (\<lambda>t. if t = ''{}'' then Some (JObj []) else None),
      call_inherited =
        (\<lambda>n a ctx. if n = ''toString'' then Inr (JStr ''[object Undefined]'')
                    else Inl (JsError (Some ''not callable'') ''TypeError: not callable''))\<rparr>"

definition sample_args :: "string \<Rightarrow> string \<Rightarrow> cmd_args" where
  "sample_args name args_json =
     \<lparr>flag = (\<lambda>k. if k = ''name'' then Some name
                   else if k = ''args-json'' then Some args_json else None),
      positional = []\<rparr>"

section \<open>The JSON text read back\<close>

declare digits_of.simps [simp del]

lemma parse_string_escape: "parse_string (escape s @ CHR 0x22 # rest) = Some (s, rest)"
  by (induction s) simp_all

lemma is_digit_digit_char: "d < 10 \<Longrightarrow> is_digit (digit_char d)"
  by (simp add: is_digit_def digit_char_def)

lemma digit_val_digit_char: "d < 10 \<Longrightarrow> digit_val (digit_char d) = d"
  by (simp add: digit_val_def digit_char_def)

lemma digits_of_digits: "c \<in> set (digits_of n) \<Longrightarrow> is_digit c"
proof (induction n arbitrary: c rule: digits_of.induct)
  case (1 n)
  then show ?case
    by (subst (asm) (2) digits_of.simps) (auto simp: is_digit_digit_char split: if_splits)
qed

lemma digits_of_nonempty: "digits_of n \<noteq> []"
  by (subst digits_of.simps) simp

lemma digits_value_snoc: "digits_value (ds @ [c]) = 10 * digits_value ds + digit_val c"
  by (simp add: digits_value_def)

lemma digits_value_digits_of: "digits_value (digits_of n) = n"
proof (induction n rule: digits_of.induct)
  case (1 n)
  show ?case
  proof (cases "n < 10")
    case True
    then show ?thesis
      by (subst digits_of.simps) (simp add: digits_value_def digit_val_digit_char)
  next
    case False
    with 1 show ?thesis
      by (subst digits_of.simps) (simp add: digits_value_snoc digit_val_digit_char)
  qed
qed

lemma parse_nat_digits_of:
  assumes "number_end rest"
  shows "parse_nat (digits_of n @ rest) = Some (n, rest)"
proof -
  have all: "\<forall>c \<in> set (digits_of n). is_digit c"
    by (simp add: digits_of_digits)
  have stop: "takeWhile is_digit rest = []" "dropWhile is_digit rest = rest"
    using assms by (auto simp: number_end_def split: list.splits)
  have tw: "takeWhile is_digit (digits_of n @ rest) = digits_of n"
    using all stop by (simp add: takeWhile_append2)
  have dw: "dropWhile is_digit (digits_of n @ rest) = rest"
    using all stop by (simp add: dropWhile_append2)
  show ?thesis
    by (simp add: parse_nat_def tw dw digits_of_nonempty digits_value_digits_of)
qed

lemma is_digit_not_punct:
  "is_digit c \<Longrightarrow> c \<noteq> CHR 0x22 \<and> c \<noteq> CHR ''['' \<and> c \<noteq> CHR '']'' \<and> c \<noteq> CHR ''{'' \<and> c \<noteq> CHR ''-''"
  by (auto simp: is_digit_def)

lemma digits_of_head: "\<exists>c cs. digits_of n = c # cs \<and> is_digit c"
proof (cases "digits_of n")
  case Nil
  then show ?thesis by (simp add: digits_of_nonempty)
next
  case (Cons c cs)
  then have "c \<in> set (digits_of n)" by simp
  then have "is_digit c" by (rule digits_of_digits)
  with Cons show ?thesis by simp
qed

lemma parse_value_number:
  assumes "number_end rest"
  shows "parse_value (Suc n) (number_text i @ rest) = Some (JNum i, rest)"
proof (cases "i < 0")
  case True
  then show ?thesis
    using parse_nat_digits_of [OF assms, of "nat (- i)"]
    by (simp add: number_text_def)
next
  case False
  obtain c cs where d: "digits_of (nat i) = c # cs" and c: "is_digit c"
    using digits_of_head by blast
  have "parse_nat (c # cs @ rest) = Some (nat i, rest)"
    using parse_nat_digits_of [OF assms, of "nat i"] d by simp
  with False c d is_digit_not_punct [OF c] show ?thesis
    by (simp add: number_text_def)
qed

lemma json_text_head: "\<exists>c cs. json_text x = c # cs \<and> c \<noteq> CHR '']''"
proof (cases x)
  case (JNum i)
  obtain c cs where d: "digits_of (nat i) = c # cs" and c: "is_digit c"
    using digits_of_head by blast
  from JNum d is_digit_not_punct [OF c] show ?thesis
    by (simp add: number_text_def)
qed (simp_all add: quote_def)

lemma elements_text_head:
  "xs \<noteq> [] \<Longrightarrow> \<exists>c cs. elements_text xs = c # cs \<and> c \<noteq> CHR '']''"
proof (cases xs)
  case Nil
  assume "xs \<noteq> []"
  with Nil show ?thesis by simp
next
  case (Cons x ys)
  obtain c cs where "json_text x = c # cs" "c \<noteq> CHR '']''"
    using json_text_head by blast
  with Cons show ?thesis by (cases ys) simp_all
qed

lemma members_text_head:
  "kvs \<noteq> [] \<Longrightarrow> \<exists>cs. members_text kvs = CHR 0x22 # cs"
proof (cases kvs)
  case Nil
  assume "kvs \<noteq> []"
  with Nil show ?thesis by simp
next
  case (Cons p ms)
  then show ?thesis by (cases p; cases ms) (simp_all add: quote_def)
qed

lemma number_end_punct [simp]:
  "number_end []" "number_end (CHR '','' # r)" "number_end (CHR '']'' # r)" "number_end (CHR ''}'' # r)"
  by (simp_all add: number_end_def is_digit_def)

lemma parse_text:
  "\<And>n rest. fuel x \<le> n \<Longrightarrow> number_end rest \<Longrightarrow>
      parse_value n (json_text x @ rest) = Some (x, rest)"
  "\<And>n rest. xs \<noteq> [] \<Longrightarrow> fuel_elements xs \<le> n \<Longrightarrow>
      parse_elements n (elements_text xs @ rest) = Some (xs, rest)"
  "\<And>n rest. kvs \<noteq> [] \<Longrightarrow> fuel_members kvs \<le> n \<Longrightarrow>
      parse_members n (members_text kvs @ rest) = Some (kvs, rest)"
proof (induction x and xs and kvs rule: json_text_elements_text_members_text.induct)
  case 1
  then show ?case by (cases n) (simp_all add: is_digit_def)
next
  case (2 b)
  then show ?case by (cases n) (simp_all add: is_digit_def)
next
  case (3 i)
  then show ?case by (cases n) (simp_all add: parse_value_number)
next
  case (4 s)
  then show ?case by (cases n) (simp_all add: quote_def parse_string_escape)
next
  case (5 xs)
  from "5.prems" obtain m where n: "n = Suc m" and m: "fuel_elements xs \<le> m"
    by (cases n) simp_all
  show ?case
  proof (cases "xs = []")
    case True
    with n show ?thesis by simp
  next
    case False
    obtain c cs where h: "elements_text xs = c # cs" "c \<noteq> CHR '']''"
      using elements_text_head [OF False] by blast
    have "parse_elements m (elements_text xs @ rest) = Some (xs, rest)"
      using "5.IH" [OF False m] .
    with n h show ?thesis by simp
  qed
next
  case (6 kvs)
  from "6.prems" obtain m where n: "n = Suc m" and m: "fuel_members kvs \<le> m"
    by (cases n) simp_all
  show ?case
  proof (cases "kvs = []")
    case True
    with n show ?thesis by simp
  next
    case False
    obtain cs where h: "members_text kvs = CHR 0x22 # cs"
      using members_text_head [OF False] by blast
    have "parse_members m (members_text kvs @ rest) = Some (kvs, rest)"
      using "6.IH" [OF False m] .
    with n h show ?thesis by simp
  qed
next
  case 7
  then show ?case by simp
next
  case (8 x)
  from "8.prems" obtain m where n: "n = Suc m" and m: "fuel x \<le> m"
    by (cases n) simp_all
  have "parse_value m (json_text x @ CHR '']'' # rest) = Some (x, CHR '']'' # rest)"
    using "8.IH" [OF m] by simp
  with n show ?case by simp
next
  case (9 x y ys)
  from "9.prems" obtain m where n: "n = Suc m" and m: "fuel x \<le> m" "fuel_elements (y # ys) \<le> m"
    by (cases n) simp_all
  have "parse_value m (json_text x @ CHR '','' # elements_text (y # ys) @ rest)
          = Some (x, CHR '','' # elements_text (y # ys) @ rest)"
    using "9.IH"(1) [OF m(1)] by simp
  moreover have "parse_elements m (elements_text (y # ys) @ rest) = Some (y # ys, rest)"
    using "9.IH"(2) [OF _ m(2)] by simp
  ultimately show ?case using n by simp
next
  case 10
  then show ?case by simp
next
  case (11 k x)
  from "11.prems" obtain m where n: "n = Suc m" and m: "fuel x \<le> m"
    by (cases n) simp_all
  have "parse_value m (json_text x @ CHR ''}'' # rest) = Some (x, CHR ''}'' # rest)"
    using "11.IH" [OF m] by simp
  with n show ?case by (simp add: quote_def parse_string_escape)
next
  case (12 k x p ms)
  from "12.prems" obtain m where n: "n = Suc m" and m: "fuel x \<le> m" "fuel_members (p # ms) \<le> m"
    by (cases n) simp_all
  have "parse_value m (json_text x @ CHR '','' # members_text (p # ms) @ rest)
          = Some (x, CHR '','' # members_text (p # ms) @ rest)"
    using "12.IH"(1) [OF m(1)] by simp
  moreover have "parse_members m (members_text (p # ms) @ rest) = Some (p # ms, rest)"
    using "12.IH"(2) [OF _ m(2)] by simp
  ultimately show ?case using n by (simp add: quote_def parse_string_escape)
qed

lemma number_text_length: "Suc 0 \<le> length (number_text i)"
  using digits_of_nonempty [of "nat i"] digits_of_nonempty [of "nat (- i)"]
  by (cases "digits_of (nat i)"; cases "digits_of (nat (- i))") (simp_all add: number_text_def)

lemma fuel_bound:
  "fuel x \<le> 2 * length (json_text x)"
  "fuel_elements xs \<le> 2 * length (elements_text xs)"
  "fuel_members kvs \<le> 2 * length (members_text kvs)"
  by (induction x and xs and kvs rule: json_text_elements_text_members_text.induct)
     (auto simp: quote_def number_text_length)

lemma json_parse_json_text: "json_parse (json_text x) = Some x"
  using parse_text(1) [of x "2 * length (json_text x)" "[]"] fuel_bound(1) [of x]
  by (simp add: json_parse_def)

lemma encode_nonempty: "encode c \<noteq> []"
  by (simp add: encode_def)

lemma json_parse_encode:
  "json_parse (encode c) =
     Some (JObj ([(''v'', JNum (c_v c)), (''pipeline'', JArr (c_pipeline c)),
                  (''resumeAtIndex'', JNum (resumeAtIndex c))]
                 @ optional ''items'' (c_items c) @ optional ''prompt'' (c_prompt c)))"
  unfolding encode_def by (rule json_parse_json_text)

lemma json_parse_garbage: "json_parse ''garbage'' = None"
  by (simp add: json_parse_def eval_nat_numeral is_digit_def)

lemma decode_missing: "decode None = Inl (TokenError ''missing token'')"
  by (simp add: decode_def)

lemma decode_garbage: "decode (Some ''garbage'') = Inl (TokenError ''undecodable token'')"
  by (simp add: decode_def json_parse_garbage)

lemma decode_other_version:
  "c_v c \<noteq> 1 \<Longrightarrow> decode (Some (encode c)) = Inl (TokenError ''unrecognized version'')"
  by (simp add: decode_def json_parse_encode)

lemma sample_decode: "decode (Some (encode sample_continuation)) = Inr sample_continuation"
  by (simp add: decode_def json_parse_encode optional_def sample_continuation_def)

section \<open>Facts about the handlers\<close>


lemma json_objects_append: "json_objects (xs @ ys) = json_objects xs @ json_objects ys"
  by (induction xs rule: json_objects.induct) simp_all

lemma json_objects_Text: "json_objects (map Text ws) = []"
  by (induction ws) simp_all

lemma tool_result_eq:
  "tool_result e pl out s =
     s\<lparr>stdout := stdout s @
        [Stringified (case approval_of out of
            Some a \<Rightarrow> approval_envelope a
                        (encodeToken e \<lparr>c_v = 1, c_pipeline = pl, resumeAtIndex = resume_index out,
                                        c_items = get_prop a ''items'', c_prompt = get_prop a ''prompt''\<rparr>)
          | None \<Rightarrow> ok_envelope (items out)),
         Text newline]\<rparr>"
  by (simp add: tool_result_def writeToolEnvelope_def Let_def split: option.splits)

lemma approval_of_sole:
  "halted out \<Longrightarrow> items out = [a] \<Longrightarrow> get_prop a ''type'' = Some (JStr ''approval_request'')
     \<Longrightarrow> approval_of out = Some a"
  by (simp add: approval_of_def)

lemma get_prop_spread_other:
  "k \<noteq> k' \<Longrightarrow> get_prop a ''type'' = Some t \<Longrightarrow> get_prop (spread_with a k x) k' = get_prop a k'"
  by (cases a) (simp_all add: update_conv')

lemma get_prop_spread_same:
  "get_prop (spread_with a k x) k = Some x"
  by (cases a) (simp_all add: update_conv')

lemma js_slice_nonneg: "0 \<le> k \<Longrightarrow> js_slice xs k = drop (nat k) xs"
  by (simp add: js_slice_def)

lemma sample_mode_tool:
  "parseModeAndStrip [''--mode'', ''tool'', p] = (if p = ''--mode'' then (''tool'', [])
     else if take 7 p = ''--mode='' then ((if drop 7 p = [] then ''human'' else drop 7 p), [])
     else (''tool'', [p]))"
  by (simp add: parseModeAndStrip_def)



text \<open>
  In tool mode a run prints one JSON object, whatever happens; so does a resume once its
  arguments are parsed and its token is decoded.
\<close>

lemma handleRun_tool_one_object:
  assumes "parseModeAndStrip argv = (''tool'', rest)"
  shows "\<exists>kvs. json_objects (stdout (snd (handleRun e argv s))) = json_objects (stdout s) @ [JObj kvs]"
  using assms
  by (simp add: handleRun_def call_engine_def Let_def tool_result_eq writeToolEnvelope_def
      error_envelope_def approval_envelope_def ok_envelope_def json_objects_append json_objects_Text
      split: sum.splits option.splits)

lemma handleResume_decoded_one_object:
  assumes "parseResumeArgs e argv = Inr ra" and "decodeResumeToken e (token ra) = Inr c"
  shows "\<exists>kvs. json_objects (stdout (snd (handleResume e argv s))) = json_objects (stdout s) @ [JObj kvs]"
  using assms
  by (simp add: handleResume_def call_engine_def Let_def tool_result_eq writeToolEnvelope_def
      error_envelope_def approval_envelope_def ok_envelope_def cancelled_envelope_def
      json_objects_append json_objects_Text
      split: sum.splits option.splits)

section \<open>Facts about \<open>workflows.run\<close>\<close>

lemma drain_events:
  "drain inp events = (stream_error inp, events @ map Pulled (stream_items inp))"
  by (induction inp arbitrary: events) simp_all

lemma workflow_args_cases:
  "workflow_args w args = Inl err \<longleftrightarrow>
     (\<exists>j. flag args ''args-json'' = Some j \<and> j \<noteq> [] \<and> JSON_parse w j = None)
     \<and> err = Error ''workflows.run --args-json must be valid JSON''"
  by (auto simp: workflow_args_def split: option.splits if_splits)

lemma runners_plain:
  "n \<notin> set object_prototype_names \<Longrightarrow> runners n = None \<longleftrightarrow> \<not> implemented n"
  by (simp add: runners_def implemented_def)

lemma runners_implemented:
  "implemented n \<Longrightarrow> \<exists>r. runners n = Some r \<and> r \<noteq> ObjectPrototype n"
  by (auto simp: runners_def implemented_def)

lemma registry_lookup_plain:
  "n \<notin> set object_prototype_names \<Longrightarrow> registry_lookup w n = workflowRegistry w n"
  by (simp add: registry_lookup_def)

lemma implemented_nonempty: "implemented n \<Longrightarrow> n \<noteq> []"
  by (auto simp: implemented_def)

text \<open>
  A name that \<open>Object.prototype\<close> has passes both guards, \<open>if (!meta)\<close> and
  \<open>if (!runner)\<close>, although it is neither registered nor implemented: with \<open>--name
  toString\<close> the command calls \<open>Object.prototype.toString\<close> as the runner and yields
  what it returns.
\<close>

lemma workflows_run_inherited_name:
  "\<not> workflowRegistry sample_wf ''toString'' \<and> \<not> implemented ''toString''
   \<and> workflows_run sample_wf End
        \<lparr>flag = (\<lambda>k. if k = ''name'' then Some ''toString'' else None), positional = []\<rparr> ()
       = (Inr [JStr ''[object Undefined]''], [Invoked (ObjectPrototype ''toString'') (JObj [])])"
  by (simp add: sample_wf_def implemented_def workflows_run_def resolved_name_def
      registry_lookup_def runners_def object_prototype_names_def workflow_args_def)

section \<open>The claims\<close>

text \<open>
  C1. When a run in tool mode halts on a sole approval request at stage \<open>i\<close>, the
  envelope printed carries the token \<open>encodeToken\<close> made of the whole pipeline,
  \<open>resumeAtIndex = i + 1\<close> and the approval's \<open>items\<close> and \<open>prompt\<close>. When a resume
  decodes its token, the only call of the engine it makes (none when the resume is not
  approved) gets the token's pipeline sliced at \<open>resumeAtIndex\<close> and a stream built from
  the token's \<open>items\<close>: for an index that is not negative the slice is the pipeline
  without its first \<open>resumeAtIndex\<close> stages, and for an array the stream yields exactly
  its elements.
\<close>

theorem resume_token_and_resume_path:
  "(parseModeAndStrip argv = (''tool'', rest) \<longrightarrow>
    parsePipeline e (join_space rest) = Inr pl \<longrightarrow>
    reply (runPipeline e \<lparr>pipeline = pl, mode = ''tool'', input = None\<rparr>) = Inr out \<longrightarrow>
    halted out \<longrightarrow> items out = [a] \<longrightarrow> get_prop a ''type'' = Some (JStr ''approval_request'') \<longrightarrow>
    haltedAt out = Some i \<longrightarrow>
      json_objects (stdout (snd (handleRun e argv s))) =
        json_objects (stdout s) @
          [approval_envelope a
             (encodeToken e \<lparr>c_v = 1, c_pipeline = pl, resumeAtIndex = i + 1,
                             c_items = get_prop a ''items'', c_prompt = get_prop a ''prompt''\<rparr>)])
   \<and> (parseResumeArgs e argv' = Inr ra \<longrightarrow>
      decodeResumeToken e (token ra) = Inr c \<longrightarrow>
        engine_calls (snd (handleResume e argv' s')) =
          engine_calls s' @
            (if approved ra
             then [\<lparr>pipeline = js_slice (c_pipeline c) (resumeAtIndex c), mode = ''tool'',
                    input = Some (items_stream (c_items c))\<rparr>]
             else [])
        \<and> (0 \<le> resumeAtIndex c \<longrightarrow>
             js_slice (c_pipeline c) (resumeAtIndex c) = drop (nat (resumeAtIndex c)) (c_pipeline c))
        \<and> (\<forall>xs. c_items c = Some (JArr xs) \<longrightarrow> items_stream (c_items c) = Inr xs))"
proof (intro conjI impI allI)
  assume "parseModeAndStrip argv = (''tool'', rest)"
    and "parsePipeline e (join_space rest) = Inr pl"
    and "reply (runPipeline e \<lparr>pipeline = pl, mode = ''tool'', input = None\<rparr>) = Inr out"
    and "halted out" "items out = [a]" "get_prop a ''type'' = Some (JStr ''approval_request'')"
    and "haltedAt out = Some i"
  then show "json_objects (stdout (snd (handleRun e argv s))) =
        json_objects (stdout s) @
          [approval_envelope a
             (encodeToken e \<lparr>c_v = 1, c_pipeline = pl, resumeAtIndex = i + 1,
                             c_items = get_prop a ''items'', c_prompt = get_prop a ''prompt''\<rparr>)]"
    by (simp add: handleRun_def call_engine_def Let_def tool_result_eq approval_of_sole
        resume_index_def json_objects_append json_objects_Text approval_envelope_def)
next
  assume "parseResumeArgs e argv' = Inr ra" and "decodeResumeToken e (token ra) = Inr c"
  then show "engine_calls (snd (handleResume e argv' s')) =
          engine_calls s' @
            (if approved ra
             then [\<lparr>pipeline = js_slice (c_pipeline c) (resumeAtIndex c), mode = ''tool'',
                    input = Some (items_stream (c_items c))\<rparr>]
             else [])"
    by (simp add: handleResume_def call_engine_def Let_def tool_result_eq writeToolEnvelope_def
        split: sum.splits)
next
  assume "0 \<le> resumeAtIndex c"
  then show "js_slice (c_pipeline c) (resumeAtIndex c) = drop (nat (resumeAtIndex c)) (c_pipeline c)"
    by (rule js_slice_nonneg)
next
  fix xs assume "c_items c = Some (JArr xs)"
  then show "items_stream (c_items c) = Inr xs" by simp
qed

theorem resume_token_and_resume_path_witness:
  "json_objects (stdout (snd (handleRun sample_env [''--mode'', ''tool'', ''exec | approve''] start)))
     = [approval_envelope sample_approval (encode sample_continuation)]
   \<and> engine_calls (snd (handleResume sample_env
         [''--token'', encode sample_continuation, ''--approve'', ''yes''] start))
     = [\<lparr>pipeline = [], mode = ''tool'', input = Some (Inr [JNum 1])\<rparr>]"
proof -
  have m: "parseModeAndStrip [''--mode'', ''tool'', ''exec | approve''] = (''tool'', [''exec | approve''])"
    by (simp add: sample_mode_tool)
  have p: "parsePipeline sample_env (join_space [''exec | approve'']) = Inr [exec_stage, approve_stage]"
    by (simp add: sample_env_def sample_parsePipeline_def)
  have r: "reply (runPipeline sample_env \<lparr>pipeline = [exec_stage, approve_stage], mode = ''tool'', input = None\<rparr>)
             = Inr \<lparr>items = [sample_approval], rendered = False, halted = True, haltedAt = Some 1\<rparr>"
    by (simp add: sample_env_def sample_runPipeline_def)
  have a: "parseResumeArgs sample_env [''--token'', encode sample_continuation, ''--approve'', ''yes'']
             = Inr \<lparr>token = Some (encode sample_continuation), approved = True\<rparr>"
    by (simp add: sample_env_def)
  have d: "decodeResumeToken sample_env (Some (encode sample_continuation)) = Inr sample_continuation"
    by (simp add: sample_env_def sample_decode)
  have c: "\<lparr>c_v = 1, c_pipeline = [exec_stage, approve_stage], resumeAtIndex = 2,
            c_items = get_prop sample_approval ''items'', c_prompt = get_prop sample_approval ''prompt''\<rparr>
           = sample_continuation"
    by (simp add: sample_continuation_def sample_approval_def)
  have ty: "get_prop sample_approval ''type'' = Some (JStr ''approval_request'')"
    by (simp add: sample_approval_def)
  have enc: "encodeToken sample_env = encode"
    by (simp add: sample_env_def)
  note t = resume_token_and_resume_path
      [where argv = "[''--mode'', ''tool'', ''exec | approve'']" and rest = "[''exec | approve'']"
         and e = sample_env and pl = "[exec_stage, approve_stage]"
         and out = "\<lparr>items = [sample_approval], rendered = False, halted = True, haltedAt = Some 1\<rparr>"
         and a = sample_approval and i = 1 and s = start
         and argv' = "[''--token'', encode sample_continuation, ''--approve'', ''yes'']"
         and ra = "\<lparr>token = Some (encode sample_continuation), approved = True\<rparr>"
         and c = sample_continuation and s' = start]
  have one: "json_objects (stdout (snd (handleRun sample_env [''--mode'', ''tool'', ''exec | approve''] start)))
     = [approval_envelope sample_approval (encode sample_continuation)]"
    using t [THEN conjunct1] m p r ty by (simp add: start_def c enc)
  have two: "engine_calls (snd (handleResume sample_env
         [''--token'', encode sample_continuation, ''--approve'', ''yes''] start))
     = [\<lparr>pipeline = [], mode = ''tool'', input = Some (Inr [JNum 1])\<rparr>]"
    using t [THEN conjunct2] a d
    by (simp add: start_def js_slice_def sample_continuation_def)
  from one two show ?thesis by simp
qed

text \<open>
  C2. A resume whose arguments do not parse, or whose token is missing, carries another
  version or is undecodable, so that \<open>parseResumeArgs\<close> or \<open>decodeResumeToken\<close> throws.
  The specification has the failure printed as a \<open>runtime_error\<close> envelope. Both calls
  stand before the \<open>try\<close> of \<open>handleResume\<close>: the error leaves \<open>handleResume\<close> uncaught
  and the process is as it was, with nothing printed and no exit code set. (\<open>runCli\<close>
  awaits the handler outside any \<open>try\<close>, so the error leaves \<open>runCli\<close> as well.)
\<close>

theorem resume_token_error_escapes:
  "(\<forall>err. parseResumeArgs e argv = Inl err \<longrightarrow> handleResume e argv s = (Uncaught err, s))
   \<and> (\<forall>ra err. parseResumeArgs e argv = Inr ra \<longrightarrow> decodeResumeToken e (token ra) = Inl err \<longrightarrow>
         handleResume e argv s = (Uncaught err, s))"
  by (simp add: handleResume_def)

theorem resume_token_error_escapes_witness:
  "handleResume sample_env [''--approve'', ''yes''] start
     = (Uncaught (TokenError ''missing token''), start)
   \<and> handleResume sample_env [''--token'', ''garbage'', ''--approve'', ''yes''] start
     = (Uncaught (TokenError ''undecodable token''), start)
   \<and> handleResume sample_env
        [''--token'', encode (sample_continuation\<lparr>c_v := 2\<rparr>), ''--approve'', ''yes''] start
     = (Uncaught (TokenError ''unrecognized version''), start)"
proof -
  have a: "parseResumeArgs sample_env [''--approve'', ''yes''] = Inr \<lparr>token = None, approved = False\<rparr>"
    "parseResumeArgs sample_env [''--token'', ''garbage'', ''--approve'', ''yes'']
       = Inr \<lparr>token = Some ''garbage'', approved = True\<rparr>"
    "parseResumeArgs sample_env [''--token'', encode (sample_continuation\<lparr>c_v := 2\<rparr>), ''--approve'', ''yes'']
       = Inr \<lparr>token = Some (encode (sample_continuation\<lparr>c_v := 2\<rparr>)), approved = True\<rparr>"
    by (simp_all add: sample_env_def)
  have d: "decodeResumeToken sample_env (token \<lparr>token = None, approved = False\<rparr>)
             = Inl (TokenError ''missing token'')"
    "decodeResumeToken sample_env (token \<lparr>token = Some ''garbage'', approved = True\<rparr>)
             = Inl (TokenError ''undecodable token'')"
    "decodeResumeToken sample_env (token \<lparr>token = Some (encode (sample_continuation\<lparr>c_v := 2\<rparr>)), approved = True\<rparr>)
             = Inl (TokenError ''unrecognized version'')"
    by (simp_all add: sample_env_def decode_missing decode_garbage decode_other_version)
  note t = resume_token_error_escapes [THEN conjunct2, rule_format]
  from t [OF a(1) d(1)] t [OF a(2) d(2)] t [OF a(3) d(3)] show ?thesis by simp
qed

text \<open>
  C3. The specification has every invocation in tool mode print exactly one JSON object.
  A run does (\<open>handleRun_tool_one_object\<close>), and so does a resume whose token decodes
  (\<open>handleResume_decoded_one_object\<close>). A resume with a token that does not decode
  prints nothing at all: here the token \<open>garbage\<close>, in the sample environment.
\<close>

theorem resume_bad_token_no_envelope:
  "stdout (snd (handleResume sample_env [''--token'', ''garbage'', ''--approve'', ''yes''] start)) = []
   \<and> json_objects (stdout (snd (handleResume sample_env [''--token'', ''garbage'', ''--approve'', ''yes''] start))) = []
   \<and> fst (handleResume sample_env [''--token'', ''garbage'', ''--approve'', ''yes''] start)
       = Uncaught (TokenError ''undecodable token'')"
  by (simp add: handleResume_def sample_env_def decode_garbage start_def)

text \<open>
  C4. A run in tool mode whose result is halted with exactly one item of type
  \<open>approval_request\<close> prints, after what the stages wrote, one envelope with \<open>ok: true\<close>,
  \<open>status: 'needs_approval'\<close>, \<open>output: []\<close> and a \<open>requiresApproval\<close> object: the
  approval with \<open>resumeToken\<close> set. That object has the approval's \<open>prompt\<close>, and its
  \<open>resumeToken\<close> is a string that is not empty, the token being \<open>encode\<close>'s.
\<close>

theorem approval_envelope_shape:
  assumes "parseModeAndStrip argv = (''tool'', rest)"
    and "parsePipeline e (join_space rest) = Inr pl"
    and "runPipeline e \<lparr>pipeline = pl, mode = ''tool'', input = None\<rparr> = r"
    and "reply r = Inr out"
    and "halted out" and "items out = [a]"
    and "get_prop a ''type'' = Some (JStr ''approval_request'')"
    and "encodeToken e = encode"
  shows "\<exists>approval tok.
           stdout (snd (handleRun e argv s)) =
             stdout s @ map Text (out_writes r) @
               [Stringified (JObj [(''ok'', JBool True),
                                   (''status'', JStr ''needs_approval''),
                                   (''output'', JArr []),
                                   (''requiresApproval'', approval)]),
                Text newline]
         \<and> approval = spread_with a ''resumeToken'' (JStr tok)
         \<and> tok = encode \<lparr>c_v = 1, c_pipeline = pl, resumeAtIndex = resume_index out,
                           c_items = get_prop a ''items'', c_prompt = get_prop a ''prompt''\<rparr>
         \<and> get_prop approval ''prompt'' = get_prop a ''prompt''
         \<and> get_prop approval ''resumeToken'' = Some (JStr tok)
         \<and> tok \<noteq> []"
proof -
  have ap: "approval_of out = Some a"
    using assms(5-7) by (rule approval_of_sole)
  have "stdout (snd (handleRun e argv s)) =
          stdout s @ map Text (out_writes r) @
            [Stringified (approval_envelope a
               (encode \<lparr>c_v = 1, c_pipeline = pl, resumeAtIndex = resume_index out,
                        c_items = get_prop a ''items'', c_prompt = get_prop a ''prompt''\<rparr>)),
             Text newline]"
    using assms(1-4,8) ap
    by (simp add: handleRun_def call_engine_def Let_def tool_result_eq)
  moreover have "get_prop (spread_with a ''resumeToken'' (JStr tok)) ''prompt'' = get_prop a ''prompt''" for tok
    using assms(7) by (simp add: get_prop_spread_other)
  ultimately show ?thesis
    by (simp add: approval_envelope_def get_prop_spread_same encode_nonempty)
qed

theorem approval_envelope_shape_witness:
  "\<exists>approval tok.
     stdout (snd (handleRun sample_env [''--mode'', ''tool'', ''exec | approve''] start)) =
       [Stringified (JObj [(''ok'', JBool True),
                           (''status'', JStr ''needs_approval''),
                           (''output'', JArr []),
                           (''requiresApproval'', approval)]),
        Text newline]
     \<and> approval = spread_with sample_approval ''resumeToken'' (JStr tok)
     \<and> tok = encode sample_continuation
     \<and> get_prop approval ''prompt'' = Some (JStr ''ok?'')
     \<and> get_prop approval ''resumeToken'' = Some (JStr tok)
     \<and> tok \<noteq> []"
proof -
  have m: "parseModeAndStrip [''--mode'', ''tool'', ''exec | approve''] = (''tool'', [''exec | approve''])"
    by (simp add: sample_mode_tool)
  have p: "parsePipeline sample_env (join_space [''exec | approve'']) = Inr [exec_stage, approve_stage]"
    by (simp add: sample_env_def sample_parsePipeline_def)
  have r: "runPipeline sample_env \<lparr>pipeline = [exec_stage, approve_stage], mode = ''tool'', input = None\<rparr>
             = \<lparr>out_writes = [], err_writes = [],
                reply = Inr \<lparr>items = [sample_approval], rendered = False, halted = True, haltedAt = Some 1\<rparr>\<rparr>"
    by (simp add: sample_env_def sample_runPipeline_def)
  have ty: "get_prop sample_approval ''type'' = Some (JStr ''approval_request'')"
    by (simp add: sample_approval_def)
  have enc: "encodeToken sample_env = encode"
    by (simp add: sample_env_def)
  have its: "get_prop sample_approval ''items'' = Some (JArr [JNum 1])"
    by (simp add: sample_approval_def)
  have pr: "get_prop sample_approval ''prompt'' = Some (JStr ''ok?'')"
    by (simp add: sample_approval_def)
  show ?thesis
    using approval_envelope_shape [OF m p r _ _ _ ty enc,
        of "\<lparr>items = [sample_approval], rendered = False, halted = True, haltedAt = Some 1\<rparr>" start]
    by (simp add: start_def resume_index_def its pr sample_continuation_def)
qed

text \<open>
  C5. In tool mode: when the pipeline does not parse, the run prints the one envelope
  \<open>{ok: false, error: {type: 'parse_error', message}}\<close>, sets the exit code 2 and calls
  the engine not at all; when the engine throws, it prints the one envelope with type
  \<open>runtime_error\<close> after what the stages wrote and sets the exit code 1; when the engine
  returns, halted or not, the exit code is left as it was.
\<close>

theorem tool_mode_exit_codes:
  assumes "parseModeAndStrip argv = (''tool'', rest)"
  shows "(\<forall>err. parsePipeline e (join_space rest) = Inl err \<longrightarrow>
            handleRun e argv s =
              (Returned,
               s\<lparr>stdout := stdout s @
                    [Stringified (JObj [(''ok'', JBool False),
                       (''error'', JObj [(''type'', JStr ''parse_error''),
                                         (''message'', JStr (err_text err))])]),
                     Text newline],
                 exitCode := Some 2\<rparr>)
            \<and> engine_calls (snd (handleRun e argv s)) = engine_calls s)
       \<and> (\<forall>pl r err. parsePipeline e (join_space rest) = Inr pl \<longrightarrow>
            runPipeline e \<lparr>pipeline = pl, mode = ''tool'', input = None\<rparr> = r \<longrightarrow>
            reply r = Inl err \<longrightarrow>
            handleRun e argv s =
              (Returned,
               s\<lparr>stdout := stdout s @ map Text (out_writes r) @
                    [Stringified (JObj [(''ok'', JBool False),
                       (''error'', JObj [(''type'', JStr ''runtime_error''),
                                         (''message'', JStr (err_text err))])]),
                     Text newline],
                 stderr := stderr s @ err_writes r,
                 exitCode := Some 1,
                 engine_calls := engine_calls s @ [\<lparr>pipeline = pl, mode = ''tool'', input = None\<rparr>]\<rparr>))
       \<and> (\<forall>pl out. parsePipeline e (join_space rest) = Inr pl \<longrightarrow>
            reply (runPipeline e \<lparr>pipeline = pl, mode = ''tool'', input = None\<rparr>) = Inr out \<longrightarrow>
            exitCode (snd (handleRun e argv s)) = exitCode s)"
  using assms
  by (simp add: handleRun_def call_engine_def Let_def writeToolEnvelope_def error_envelope_def
      tool_result_eq)

theorem tool_mode_exit_codes_witness:
  "handleRun sample_env [''--mode'', ''tool'', ''|''] start =
     (Returned,
      \<lparr>stdout = [Stringified (JObj [(''ok'', JBool False),
                       (''error'', JObj [(''type'', JStr ''parse_error''),
                                         (''message'', JStr ''Unexpected token'')])]),
                 Text newline],
       stderr = [], exitCode = Some 2, engine_calls = []\<rparr>)
   \<and> handleRun sample_env [''--mode'', ''tool'', ''exec | fail''] start =
     (Returned,
      \<lparr>stdout = [Stringified (JObj [(''ok'', JBool False),
                       (''error'', JObj [(''type'', JStr ''runtime_error''),
                                         (''message'', JStr ''Unknown command: fail'')])]),
                 Text newline],
       stderr = [], exitCode = Some 1,
       engine_calls = [\<lparr>pipeline = [exec_stage, JObj [(''name'', JStr ''fail'')]],
                         mode = ''tool'', input = None\<rparr>]\<rparr>)
   \<and> exitCode (snd (handleRun sample_env [''--mode'', ''tool'', ''exec''] start)) = None
   \<and> exitCode (snd (handleRun sample_env [''--mode'', ''tool'', ''exec | approve''] start)) = None"
proof -
  have m: "parseModeAndStrip [''--mode'', ''tool'', ''|''] = (''tool'', [''|''])"
    "parseModeAndStrip [''--mode'', ''tool'', ''exec | fail''] = (''tool'', [''exec | fail''])"
    "parseModeAndStrip [''--mode'', ''tool'', ''exec''] = (''tool'', [''exec''])"
    "parseModeAndStrip [''--mode'', ''tool'', ''exec | approve''] = (''tool'', [''exec | approve''])"
    by (simp_all add: sample_mode_tool)
  have p: "parsePipeline sample_env (join_space [''|'']) = Inl (Error ''Unexpected token'')"
    "parsePipeline sample_env (join_space [''exec | fail'']) = Inr [exec_stage, JObj [(''name'', JStr ''fail'')]]"
    "parsePipeline sample_env (join_space [''exec'']) = Inr [exec_stage]"
    "parsePipeline sample_env (join_space [''exec | approve'']) = Inr [exec_stage, approve_stage]"
    by (simp_all add: sample_env_def sample_parsePipeline_def)
  have r: "runPipeline sample_env \<lparr>pipeline = [exec_stage, JObj [(''name'', JStr ''fail'')]], mode = ''tool'', input = None\<rparr>
             = \<lparr>out_writes = [], err_writes = [], reply = Inl (Error ''Unknown command: fail'')\<rparr>"
    "reply (runPipeline sample_env \<lparr>pipeline = [exec_stage], mode = ''tool'', input = None\<rparr>)
             = Inr \<lparr>items = [JNum 1], rendered = False, halted = False, haltedAt = None\<rparr>"
    "reply (runPipeline sample_env \<lparr>pipeline = [exec_stage, approve_stage], mode = ''tool'', input = None\<rparr>)
             = Inr \<lparr>items = [sample_approval], rendered = False, halted = True, haltedAt = Some 1\<rparr>"
    by (simp_all add: sample_env_def sample_runPipeline_def exec_stage_def approve_stage_def table_stage_def)
  have one: "handleRun sample_env [''--mode'', ''tool'', ''|''] start =
     (Returned,
      \<lparr>stdout = [Stringified (JObj [(''ok'', JBool False),
                       (''error'', JObj [(''type'', JStr ''parse_error''),
                                         (''message'', JStr ''Unexpected token'')])]),
                 Text newline],
       stderr = [], exitCode = Some 2, engine_calls = []\<rparr>)"
    using tool_mode_exit_codes [OF m(1), of sample_env start] p(1)
    by (simp add: start_def err_text_def Error_def)
  have two: "handleRun sample_env [''--mode'', ''tool'', ''exec | fail''] start =
     (Returned,
      \<lparr>stdout = [Stringified (JObj [(''ok'', JBool False),
                       (''error'', JObj [(''type'', JStr ''runtime_error''),
                                         (''message'', JStr ''Unknown command: fail'')])]),
                 Text newline],
       stderr = [], exitCode = Some 1,
       engine_calls = [\<lparr>pipeline = [exec_stage, JObj [(''name'', JStr ''fail'')]],
                         mode = ''tool'', input = None\<rparr>]\<rparr>)"
    using tool_mode_exit_codes [OF m(2), of sample_env start] p(2) r(1)
    by (simp add: start_def err_text_def Error_def)
  have three: "exitCode (snd (handleRun sample_env [''--mode'', ''tool'', ''exec''] start)) = None"
    using tool_mode_exit_codes [OF m(3), of sample_env start] p(3) r(2)
    by (simp add: start_def)
  have four: "exitCode (snd (handleRun sample_env [''--mode'', ''tool'', ''exec | approve''] start)) = None"
    using tool_mode_exit_codes [OF m(4), of sample_env start] p(4) r(3)
    by (simp add: start_def)
  from one two three four show ?thesis by simp
qed

text \<open>
  C6. A resume whose token decodes and whose approval flag is not set prints the one
  envelope \<open>{ok: true, status: 'cancelled', output: [], requiresApproval: null}\<close>,
  changes nothing else and does not call the engine.
\<close>

theorem resume_unapproved_cancelled:
  assumes "parseResumeArgs e argv = Inr ra"
    and "decodeResumeToken e (token ra) = Inr payload"
    and "\<not> approved ra"
  shows "handleResume e argv s =
           (Returned,
            s\<lparr>stdout := stdout s @
               [Stringified (JObj [(''ok'', JBool True), (''status'', JStr ''cancelled''),
                                   (''output'', JArr []), (''requiresApproval'', JNull)]),
                Text newline]\<rparr>)
         \<and> engine_calls (snd (handleResume e argv s)) = engine_calls s"
  using assms by (simp add: handleResume_def writeToolEnvelope_def cancelled_envelope_def)

theorem resume_unapproved_cancelled_witness:
  "handleResume sample_env [''--token'', encode sample_continuation, ''--approve'', ''no''] start =
     (Returned,
      \<lparr>stdout = [Stringified (JObj [(''ok'', JBool True), (''status'', JStr ''cancelled''),
                                    (''output'', JArr []), (''requiresApproval'', JNull)]),
                 Text newline],
       stderr = [], exitCode = None, engine_calls = []\<rparr>)"
proof -
  have a: "parseResumeArgs sample_env [''--token'', encode sample_continuation, ''--approve'', ''no'']
             = Inr \<lparr>token = Some (encode sample_continuation), approved = False\<rparr>"
    by (simp add: sample_env_def)
  have d: "decodeResumeToken sample_env (token \<lparr>token = Some (encode sample_continuation), approved = False\<rparr>)
             = Inr sample_continuation"
    by (simp add: sample_env_def sample_decode)
  show ?thesis
    using resume_unapproved_cancelled [OF a d, of start] by (simp add: start_def)
qed

text \<open>
  C7. For every valid ResumeContinuation \<open>c\<close> (version 1, the items an array, the prompt
  a string), \<open>decode (encode c) = c\<close>: the pipeline, \<open>resumeAtIndex\<close>, the items and the
  prompt are read back as they were written.
\<close>

theorem token_round_trip:
  assumes "valid_continuation c"
  shows "decode (Some (encode c)) = Inr c"
proof -
  from assms obtain its p where f: "c_v c = 1" "c_items c = Some (JArr its)" "c_prompt c = Some (JStr p)"
    by (auto simp: valid_continuation_def split: option.splits json.splits)
  then show ?thesis
    by (simp add: decode_def json_parse_encode optional_def)
qed

theorem token_round_trip_witness:
  "valid_continuation sample_continuation
   \<and> decode (Some (encode sample_continuation)) = Inr sample_continuation"
proof -
  have v: "valid_continuation sample_continuation"
    by (simp add: valid_continuation_def sample_continuation_def)
  from v token_round_trip [OF v] show ?thesis by simp
qed

text \<open>
  C8. In human mode, when the engine returns a result, the command line writes to
  \<open>stdout\<close>, after what the stages wrote, the JSON text of the items and a line break
  when \<open>rendered\<close> is false, and nothing when \<open>rendered\<close> is true; it writes nothing to
  \<open>stderr\<close> and sets no exit code.
\<close>

theorem human_mode_output:
  assumes "parseModeAndStrip argv = (''human'', rest)"
    and "parsePipeline e (join_space rest) = Inr pl"
    and "runPipeline e \<lparr>pipeline = pl, mode = ''human'', input = None\<rparr> = r"
    and "reply r = Inr out"
  shows "handleRun e argv s =
           (Returned,
            s\<lparr>stdout := stdout s @ map Text (out_writes r) @
                 (if rendered out then [] else [Stringified (JArr (items out)), Text newline]),
              stderr := stderr s @ err_writes r,
              engine_calls := engine_calls s @ [\<lparr>pipeline = pl, mode = ''human'', input = None\<rparr>]\<rparr>)"
  using assms by (simp add: handleRun_def call_engine_def Let_def)

theorem human_mode_output_witness:
  "handleRun sample_env [''exec''] start =
     (Returned,
      \<lparr>stdout = [Stringified (JArr [JNum 1]), Text newline], stderr = [], exitCode = None,
       engine_calls = [\<lparr>pipeline = [exec_stage], mode = ''human'', input = None\<rparr>]\<rparr>)
   \<and> handleRun sample_env [''exec'', ''|'', ''table''] start =
     (Returned,
      \<lparr>stdout = [Text (''1'' @ newline)], stderr = [], exitCode = None,
       engine_calls = [\<lparr>pipeline = [exec_stage, table_stage], mode = ''human'', input = None\<rparr>]\<rparr>)"
proof -
  have m2: "parseModeAndStrip [''exec'', ''|'', ''table''] = (''human'', [''exec'', ''|'', ''table''])"
    by (simp add: parseModeAndStrip_def)
  have p2: "parsePipeline sample_env (join_space [''exec'', ''|'', ''table'']) = Inr [exec_stage, table_stage]"
    by (simp add: sample_env_def sample_parsePipeline_def)
  have r2: "runPipeline sample_env \<lparr>pipeline = [exec_stage, table_stage], mode = ''human'', input = None\<rparr>
             = \<lparr>out_writes = [''1'' @ newline], err_writes = [],
                reply = Inr \<lparr>items = [], rendered = True, halted = False, haltedAt = None\<rparr>\<rparr>"
    by (simp add: sample_env_def sample_runPipeline_def exec_stage_def approve_stage_def table_stage_def)
  have two: "handleRun sample_env [''exec'', ''|'', ''table''] start =
     (Returned,
      \<lparr>stdout = [Text (''1'' @ newline)], stderr = [], exitCode = None,
       engine_calls = [\<lparr>pipeline = [exec_stage, table_stage], mode = ''human'', input = None\<rparr>]\<rparr>)"
    using human_mode_output [OF m2 p2 r2, of "\<lparr>items = [], rendered = True, halted = False, haltedAt = None\<rparr>" start]
    by (simp add: start_def)
  have m: "parseModeAndStrip [''exec''] = (''human'', [''exec''])"
    by (simp add: parseModeAndStrip_def)
  have p: "parsePipeline sample_env (join_space [''exec'']) = Inr [exec_stage]"
    by (simp add: sample_env_def sample_parsePipeline_def)
  have r: "runPipeline sample_env \<lparr>pipeline = [exec_stage], mode = ''human'', input = None\<rparr>
             = \<lparr>out_writes = [], err_writes = [],
                reply = Inr \<lparr>items = [JNum 1], rendered = False, halted = False, haltedAt = None\<rparr>\<rparr>"
    by (simp add: sample_env_def sample_runPipeline_def exec_stage_def approve_stage_def table_stage_def)
  have one: "handleRun sample_env [''exec''] start =
     (Returned,
      \<lparr>stdout = [Stringified (JArr [JNum 1]), Text newline], stderr = [], exitCode = None,
       engine_calls = [\<lparr>pipeline = [exec_stage], mode = ''human'', input = None\<rparr>]\<rparr>)"
    using human_mode_output [OF m p r, of "\<lparr>items = [JNum 1], rendered = False, halted = False, haltedAt = None\<rparr>" start]
    by (simp add: start_def)
  from one two show ?thesis by simp
qed

text \<open>
  C9, amended. For every input stream and for all arguments whose name is not one that
  \<open>Object.prototype\<close> has: \<open>workflows.run\<close> first drains its input stream, and when
  a pull throws, it throws that error, after the items pulled before and with no runner
  called. When the stream has ended, it throws with no runner called when both
  \<open>args.name\<close> and the first positional argument are absent, when the name is not a
  registered workflow, when no runner is implemented for it, or when \<open>--args-json\<close> is
  not empty and is not valid JSON (an empty \<open>--args-json\<close> is taken as absent).
  Otherwise it calls the runner of that name once, with the parsed arguments or \<open>{}\<close>:
  when the runner returns, the output stream yields exactly its result, and when the
  runner throws, so does the command.
\<close>

theorem workflows_run_outcomes:
  assumes "plain_name args"
  shows "(\<forall>err. stream_error inp = Some err \<longrightarrow>
            workflows_run w inp args ctx = (Inl err, map Pulled (stream_items inp)))
       \<and> (stream_error inp = None \<longrightarrow>
            (refuses w args \<longrightarrow>
               (\<exists>err. workflows_run w inp args ctx = (Inl err, map Pulled (stream_items inp))))
          \<and> (\<not> refuses w args \<longrightarrow>
               (\<exists>n r a. resolved_name args = Some n \<and> workflowRegistry w n \<and> implemented n
                  \<and> runners n = Some r \<and> workflow_args w args = Inr a
                  \<and> snd (workflows_run w inp args ctx) = map Pulled (stream_items inp) @ [Invoked r a]
                  \<and> (\<forall>res. call_runner w r a ctx = Inr res \<longrightarrow>
                        fst (workflows_run w inp args ctx) = Inr [res])
                  \<and> (\<forall>err. call_runner w r a ctx = Inl err \<longrightarrow>
                        fst (workflows_run w inp args ctx) = Inl err))))"
proof (intro conjI allI impI)
  fix err assume "stream_error inp = Some err"
  then show "workflows_run w inp args ctx = (Inl err, map Pulled (stream_items inp))"
    by (simp add: workflows_run_def drain_events)
next
  assume ok: "stream_error inp = None" and r: "refuses w args"
  show "\<exists>err. workflows_run w inp args ctx = (Inl err, map Pulled (stream_items inp))"
  proof (cases "resolved_name args")
    case None
    with ok show ?thesis by (simp add: workflows_run_def drain_events)
  next
    case (Some n)
    with assms have pl: "n \<notin> set object_prototype_names"
      by (simp add: plain_name_def)
    show ?thesis
    proof (cases "n \<noteq> [] \<and> workflowRegistry w n \<and> implemented n")
      case False
      have rn: "\<not> implemented n \<Longrightarrow> runners n = None"
        using pl by (simp add: runners_plain)
      from False consider "n = []" | "n \<noteq> []" "\<not> workflowRegistry w n"
        | "n \<noteq> []" "workflowRegistry w n" "\<not> implemented n"
        by blast
      then show ?thesis
      proof cases
        case 1
        with ok Some show ?thesis by (simp add: workflows_run_def drain_events)
      next
        case 2
        with ok Some pl show ?thesis
          by (simp add: workflows_run_def drain_events registry_lookup_plain)
      next
        case 3
        with ok Some pl rn show ?thesis
          by (simp add: workflows_run_def drain_events registry_lookup_plain)
      qed
    next
      case True
      with r Some have "\<exists>j. flag args ''args-json'' = Some j \<and> j \<noteq> [] \<and> JSON_parse w j = None"
        by (auto simp: refuses_def resolved_name_def split: option.splits)
      then have "workflow_args w args = Inl (Error ''workflows.run --args-json must be valid JSON'')"
        by (simp add: workflow_args_cases)
      with ok Some show ?thesis
        by (simp add: workflows_run_def drain_events split: option.splits)
    qed
  qed
next
  assume ok: "stream_error inp = None" and n: "\<not> refuses w args"
  from n obtain nm where nm: "resolved_name args = Some nm"
    by (cases "resolved_name args") (auto simp: refuses_def resolved_name_def split: option.splits list.splits)
  from n nm have reg: "workflowRegistry w nm" and imp: "implemented nm"
    by (auto simp: refuses_def)
  from assms nm have pl: "nm \<notin> set object_prototype_names"
    by (simp add: plain_name_def)
  from imp obtain r where r: "runners nm = Some r"
    using runners_implemented by blast
  from n obtain a where a: "workflow_args w args = Inr a"
    by (cases "workflow_args w args") (auto simp: refuses_def workflow_args_cases)
  have ne: "nm \<noteq> []" using imp by (rule implemented_nonempty)
  show "\<exists>n r a. resolved_name args = Some n \<and> workflowRegistry w n \<and> implemented n
                  \<and> runners n = Some r \<and> workflow_args w args = Inr a
                  \<and> snd (workflows_run w inp args ctx) = map Pulled (stream_items inp) @ [Invoked r a]
                  \<and> (\<forall>res. call_runner w r a ctx = Inr res \<longrightarrow>
                        fst (workflows_run w inp args ctx) = Inr [res])
                  \<and> (\<forall>err. call_runner w r a ctx = Inl err \<longrightarrow>
                        fst (workflows_run w inp args ctx) = Inl err)"
    using ok nm reg imp pl r a ne
    by (auto simp: workflows_run_def drain_events registry_lookup_plain split: sum.splits)
qed

theorem workflows_run_outcomes_witness:
  "workflows_run sample_wf (Yields (JNum 7) (Throws (Error ''upstream failed'')))
       (sample_args ''github.pr.monitor'' ''{}'') ()
     = (Inl (Error ''upstream failed''), [Pulled (JNum 7)])
   \<and> (\<exists>err. workflows_run sample_wf (Yields (JNum 7) End) (sample_args ''nope'' ''{}'') ()
              = (Inl err, [Pulled (JNum 7)]))
   \<and> workflows_run sample_wf (Yields (JNum 7) End) (sample_args ''github.pr.monitor'' ''{}'') ()
     = (Inr [JStr ''monitored''], [Pulled (JNum 7), Invoked RunGithubPrMonitorWorkflow (JObj [])])"
proof -
  have p1: "plain_name (sample_args ''nope'' ''{}'')"
    by (simp add: plain_name_def sample_args_def resolved_name_def object_prototype_names_def)
  have p2: "plain_name (sample_args ''github.pr.monitor'' ''{}'')"
    by (simp add: plain_name_def sample_args_def resolved_name_def object_prototype_names_def)
  have r1: "refuses sample_wf (sample_args ''nope'' ''{}'')"
    by (simp add: refuses_def sample_wf_def sample_args_def resolved_name_def)
  have r2: "\<not> refuses sample_wf (sample_args ''github.pr.monitor'' ''{}'')"
    by (simp add: refuses_def sample_wf_def sample_args_def resolved_name_def implemented_def)
  have one: "workflows_run sample_wf (Yields (JNum 7) (Throws (Error ''upstream failed'')))
       (sample_args ''github.pr.monitor'' ''{}'') ()
     = (Inl (Error ''upstream failed''), [Pulled (JNum 7)])"
    using workflows_run_outcomes [OF p2, of "Yields (JNum 7) (Throws (Error ''upstream failed''))" sample_wf "()"]
    by simp
  have two: "\<exists>err. workflows_run sample_wf (Yields (JNum 7) End) (sample_args ''nope'' ''{}'') ()
              = (Inl err, [Pulled (JNum 7)])"
    using workflows_run_outcomes [OF p1, of "Yields (JNum 7) End" sample_wf "()"] r1
    by simp
  have three: "workflows_run sample_wf (Yields (JNum 7) End) (sample_args ''github.pr.monitor'' ''{}'') ()
     = (Inr [JStr ''monitored''], [Pulled (JNum 7), Invoked RunGithubPrMonitorWorkflow (JObj [])])"
    using workflows_run_outcomes [OF p2, of "Yields (JNum 7) End" sample_wf "()"] r2
    by (auto simp: sample_wf_def sample_args_def resolved_name_def runners_def workflow_args_def
        prod_eq_iff)
  from one two three show ?thesis by simp
qed

text \<open>
  C9 as the specification states it fails at two inputs. An \<open>--args-json\<close> that is
  present and empty is not valid JSON, yet the guard \<open>if (args['args-json'])\<close> skips it:
  the command calls the runner with \<open>{}\<close> and yields its result. And with arguments
  that name a registered and implemented workflow, an input stream that throws yields
  no item: the \<open>for await\<close> stands in no \<open>try\<close>, and the command throws what the stream
  threw.
\<close>

theorem workflows_run_claim_fails:
  "flag (sample_args ''email.triage'' []) ''args-json'' = Some []
   \<and> JSON_parse sample_wf [] = None
   \<and> claimed_refuses sample_wf (sample_args ''email.triage'' [])
   \<and> workflows_run sample_wf (Yields (JNum 7) End) (sample_args ''email.triage'' []) ()
       = (Inr [JStr ''triaged''], [Pulled (JNum 7), Invoked RunEmailTriageWorkflow (JObj [])])
   \<and> \<not> claimed_refuses sample_wf (sample_args ''email.triage'' ''{}'')
   \<and> workflows_run sample_wf (Yields (JNum 7) (Throws (Error ''upstream failed'')))
         (sample_args ''email.triage'' ''{}'') ()
       = (Inl (Error ''upstream failed''), [Pulled (JNum 7)])"
  by (simp add: claimed_refuses_def implemented_def sample_wf_def sample_args_def workflows_run_def
      registry_lookup_def resolved_name_def runners_def workflow_args_def)



end
